theory Spec2Isabelle
  imports
    Main
    "HOL-Library.AList"
    "HOL-Library.Char_ord"
    "HOL-Library.List_Lexorder"
    "HOL-Library.Sublist"
begin

section \<open>Data model of \<^verbatim>\<open>openlane/common/metrics/util.py\<close>\<close>

text \<open>
  Python strings are modelled as \<^typ>\<open>string\<close>, read as UTF-8 byte sequences. Splitting
  on the ASCII tokens \<^verbatim>\<open>__\<close> and \<^verbatim>\<open>:\<close> and comparing strings give the same result
  on UTF-8 bytes as on code points; only the padding of table cells counts code points.

  Python dictionaries keep insertion order: they are association lists with pairwise
  distinct keys, \<^const>\<open>AList.update\<close> being \<^verbatim>\<open>d[k] = v\<close> (overwrite in place, or append)
  and \<^const>\<open>map_of\<close> being \<^verbatim>\<open>d.get(k)\<close>.
\<close>

datatype error = IndexError

type_synonym 'v dict = "(string \<times> 'v) list"

text \<open>
  Modelled from the spec: the class \<^verbatim>\<open>MetricComparisonResult\<close> lives in
  \<^verbatim>\<open>openlane/common/metrics/metric.py\<close>, which is not among the sources. Following section 3
  of the specification it is a fixed-field structure: the metric name, the \<^verbatim>\<open>better\<close> flag
  (true, false or undetermined), the \<^verbatim>\<open>critical\<close> flag, the answer of \<^verbatim>\<open>is_changed()\<close> and
  the three strings (before, after, delta) given by \<^verbatim>\<open>format_values()\<close>.
\<close>

record MetricComparisonResult =
  metric_name :: string
  better :: "bool option"
  critical :: bool
  is_changed :: bool
  format_values :: "string \<times> string \<times> string"

text \<open>The dataclass \<^verbatim>\<open>MetricDiff.MetricStatistics\<close>; the counters start at zero.\<close>

record MetricStatistics =
  better :: nat
  worse :: nat
  critical :: nat
  unchanged :: nat

text \<open>The constructor call \<^verbatim>\<open>MetricComparisonResult(...)\<close>, fields in the order above.\<close>

definition result ::
  "string \<Rightarrow> bool option \<Rightarrow> bool \<Rightarrow> bool \<Rightarrow> string \<times> string \<times> string
     \<Rightarrow> MetricComparisonResult" where
  "result name b c ch fv =
     \<lparr>metric_name = name, MetricComparisonResult.better = b,
      MetricComparisonResult.critical = c, is_changed = ch, format_values = fv\<rparr>"

section \<open>\<^verbatim>\<open>MetricDiff.stats\<close>\<close>

text \<open>The body of the loop of \<^verbatim>\<open>stats\<close>, for one row.\<close>

definition stats_row :: "MetricStatistics \<Rightarrow> MetricComparisonResult \<Rightarrow> MetricStatistics" where
  "stats_row st row =
     (let st1 =
        (if \<not> is_changed row then st\<lparr>unchanged := unchanged st + 1\<rparr>
         else (case MetricComparisonResult.better row of
                 Some b \<Rightarrow>
                   (if b then st\<lparr>MetricStatistics.better := MetricStatistics.better st + 1\<rparr>
                    else st\<lparr>worse := worse st + 1\<rparr>)
               | None \<Rightarrow> st))
      in if MetricComparisonResult.critical row
         then st1\<lparr>MetricStatistics.critical := MetricStatistics.critical st1 + 1\<rparr>
         else st1)"

definition stats :: "MetricComparisonResult list \<Rightarrow> MetricStatistics" where
  "stats differences =
     foldl stats_row
       \<lparr>MetricStatistics.better = 0, worse = 0, MetricStatistics.critical = 0, unchanged = 0\<rparr>
       differences"

section \<open>\<^verbatim>\<open>parse_metric_modifiers\<close>\<close>

text \<open>
  \<^verbatim>\<open>s.split("__")\<close>: the string is scanned from the left and cut at every occurrence of
  the separator that does not overlap an earlier one. The result is never empty.
\<close>

fun split_dunder :: "string \<Rightarrow> string list" where
  "split_dunder [] = [[]]"
| "split_dunder [c] = [[c]]"
| "split_dunder (c # d # cs) =
     (if c = CHR ''_'' \<and> d = CHR ''_'' then [] # split_dunder cs
      else (let ps = split_dunder (d # cs) in (c # hd ps) # tl ps))"

text \<open>\<^verbatim>\<open>"__".join(parts)\<close>.\<close>

fun join_dunder :: "string list \<Rightarrow> string" where
  "join_dunder [] = []"
| "join_dunder [p] = p"
| "join_dunder (p # q # ps) = p @ ''__'' @ join_dunder (q # ps)"

text \<open>
  \<^verbatim>\<open>part.split(":", maxsplit=1)\<close> for a part that contains a colon (the loop's guard):
  what is before the first colon, and what is after it.
\<close>

definition split_colon :: "string \<Rightarrow> string \<times> string" where
  "split_colon part =
     (takeWhile (\<lambda>c. c \<noteq> CHR '':'') part, tl (dropWhile (\<lambda>c. c \<noteq> CHR '':'') part))"

text \<open>
  The \<^verbatim>\<open>while\<close> loop. \<^verbatim>\<open>mn_mut[-1]\<close> raises \<^verbatim>\<open>IndexError\<close> on the empty list;
  \<^verbatim>\<open>mn_mut.pop()\<close> removes the last part.
\<close>

function parse_loop :: "string list \<Rightarrow> string dict \<Rightarrow> error + (string list \<times> string dict)" where
  "parse_loop mn_mut modifiers =
     (if mn_mut = [] then Inl IndexError
      else if CHR '':'' \<in> set (last mn_mut) then
        (case split_colon (last mn_mut) of
           (key, value) \<Rightarrow> parse_loop (butlast mn_mut) (AList.update key value modifiers))
      else Inr (mn_mut, modifiers))"
  by pat_completeness auto
termination
  by (relation "measure (\<lambda>(mn_mut, modifiers). length mn_mut)") auto

declare parse_loop.simps [simp del]

text \<open>
  The dictionary comprehension \<^verbatim>\<open>{k: modifiers[k] for k in reversed(modifiers)}\<close>: the keys
  in reverse insertion order, each inserted with its value.
\<close>

definition reversed_dict :: "'v dict \<Rightarrow> 'v dict" where
  "reversed_dict modifiers =
     foldl (\<lambda>d k. AList.update k (the (map_of modifiers k)) d) [] (rev (map fst modifiers))"

definition parse_metric_modifiers :: "string \<Rightarrow> error + (string \<times> string dict)" where
  "parse_metric_modifiers name =
     (case parse_loop (split_dunder name) [] of
        Inl e \<Rightarrow> Inl e
      | Inr (mn_mut, modifiers) \<Rightarrow> Inr (join_dunder mn_mut, reversed_dict modifiers))"

text \<open>
  One turn of the loop seen from the dictionary: the popped part is cut at its first colon
  and stored, \<^verbatim>\<open>modifiers[key] = value\<close>.
\<close>

definition store_segment :: "string \<Rightarrow> string dict \<Rightarrow> string dict" where
  "store_segment seg d = AList.update (fst (split_colon seg)) (snd (split_colon seg)) d"

text \<open>
  The pattern \<^verbatim>\<open>modifier_rx = ([\w\-]+)\:([\w\-]+)\<close> of line 32, which no function of the
  file uses. \<^verbatim>\<open>\w\<close> is taken on ASCII (letters, digits, underscore); on a \<^verbatim>\<open>str\<close>
  pattern Python also accepts the letters and digits beyond ASCII, which are left out
  here, so the predicates below agree with the pattern on ASCII strings. Both character
  classes exclude the colon, so a match at a position takes the longest run of class
  characters, a colon, and at least one more class character (\<^verbatim>\<open>modifier_rx.match\<close>);
  \<^verbatim>\<open>fullmatch\<close> wants the rest to be class characters to the end, and \<^verbatim>\<open>search\<close>
  tries every position.
\<close>

definition word_or_hyphen :: "char \<Rightarrow> bool" where
  "word_or_hyphen c \<longleftrightarrow>
     (CHR ''a'' \<le> c \<and> c \<le> CHR ''z'') \<or> (CHR ''A'' \<le> c \<and> c \<le> CHR ''Z'')
     \<or> (CHR ''0'' \<le> c \<and> c \<le> CHR ''9'') \<or> c = CHR ''_'' \<or> c = CHR ''-''"

definition modifier_rx_match :: "string \<Rightarrow> bool" where
  "modifier_rx_match s \<longleftrightarrow>
     (let rest = dropWhile word_or_hyphen s
      in takeWhile word_or_hyphen s \<noteq> [] \<and> take 1 rest = '':''
         \<and> takeWhile word_or_hyphen (drop 1 rest) \<noteq> [])"

definition modifier_rx_fullmatch :: "string \<Rightarrow> bool" where
  "modifier_rx_fullmatch s \<longleftrightarrow>
     modifier_rx_match s \<and> list_all word_or_hyphen (drop 1 (dropWhile word_or_hyphen s))"

definition modifier_rx_search :: "string \<Rightarrow> bool" where
  "modifier_rx_search s \<longleftrightarrow> list_ex (\<lambda>i. modifier_rx_match (drop i s)) [0..<length s]"

section \<open>\<^verbatim>\<open>aggregate_metrics\<close>\<close>

text \<open>
  Metric values are \<^verbatim>\<open>Any\<close>: the Python values a snapshot holds, without floats.
  \<^verbatim>\<open>truthy\<close> is Python's truth value, which \<^verbatim>\<open>x or y\<close> tests.
\<close>

datatype pyval = PyNone | PyBool bool | PyInt int | PyStr string

fun truthy :: "pyval \<Rightarrow> bool" where
  "truthy PyNone = False"
| "truthy (PyBool b) = b"
| "truthy (PyInt i) = (i \<noteq> 0)"
| "truthy (PyStr s) = (s \<noteq> [])"

text \<open>
  Modelled from the spec: \<^verbatim>\<open>MetricAggregator\<close> and the class \<^verbatim>\<open>Metric\<close> live in
  \<^verbatim>\<open>openlane/common/metrics/metric.py\<close>, which is not among the sources. Following
  sections 3 and 6 of the specification, an aggregator is the pair of the initial
  accumulator and a reducer over a list of values, and a \<^verbatim>\<open>Metric\<close> has an optional
  aggregator and an optional collection \<^verbatim>\<open>dont_aggregate\<close> of modifier keys. The registry
  maps a base name to an aggregator or to a \<^verbatim>\<open>Metric\<close>. The reducer is a function of the
  caller's; it is taken to return a value on every list.
\<close>

type_synonym MetricAggregator = "pyval \<times> (pyval list \<Rightarrow> pyval)"

record Metric =
  dont_aggregate :: "string list option"
  aggregator :: "MetricAggregator option"

datatype registry_entry = Aggregator MetricAggregator | MetricObject Metric

type_synonym registry = "string \<Rightarrow> registry_entry option"

text \<open>
  Lines 93 to 97: the \<^verbatim>\<open>isinstance(entry, Metric)\<close> test, giving \<^verbatim>\<open>dont_aggregate\<close> and
  the aggregator (or \<^verbatim>\<open>None\<close>).
\<close>

fun resolve_entry :: "registry_entry option \<Rightarrow> string list \<times> MetricAggregator option" where
  "resolve_entry None = ([], None)"
| "resolve_entry (Some (Aggregator a)) = ([], Some a)"
| "resolve_entry (Some (MetricObject m)) =
     ((case dont_aggregate m of None \<Rightarrow> [] | Some d \<Rightarrow> d), aggregator m)"

text \<open>\<^verbatim>\<open>aggregated.get(metric_name_so_far) or start\<close>.\<close>

definition get_or :: "pyval option \<Rightarrow> pyval \<Rightarrow> pyval" where
  "get_or stored start =
     (case stored of None \<Rightarrow> start | Some v \<Rightarrow> if truthy v then v else start)"

text \<open>
  The inner loop (lines 105 to 110) over \<^verbatim>\<open>modifier_names\<close>; the state is the
  dictionary \<^verbatim>\<open>aggregated\<close> and the name \<^verbatim>\<open>metric_name_so_far\<close>.
\<close>

fun fold_prefixes ::
  "MetricAggregator \<Rightarrow> pyval \<Rightarrow> string dict \<Rightarrow> string list \<Rightarrow> pyval dict \<times> string
     \<Rightarrow> pyval dict \<times> string" where
  "fold_prefixes entry val modifiers [] (aggregated, metric_name_so_far) =
     (aggregated, metric_name_so_far)"
| "fold_prefixes entry val modifiers (modifier # rest) (aggregated, metric_name_so_far) =
     (case entry of
        (start, aggregation_fn) \<Rightarrow>
          (let current = get_or (map_of aggregated metric_name_so_far) start
           in fold_prefixes entry val modifiers rest
                (AList.update metric_name_so_far (aggregation_fn [current, val]) aggregated,
                 metric_name_so_far @ ''__'' @ modifier @ '':''
                   @ the (map_of modifiers modifier))))"

text \<open>
  The body of the outer loop (lines 87 to 110) for one item of the input; \<^verbatim>\<open>base\<close> is
  the local variable \<^verbatim>\<open>metric_name\<close>.
\<close>

definition aggregate_entry :: "registry \<Rightarrow> pyval dict \<Rightarrow> string \<times> pyval \<Rightarrow> error + pyval dict" where
  "aggregate_entry aggregator_by_metric aggregated item =
     (case item of
        (name, val) \<Rightarrow>
          (case parse_metric_modifiers name of
             Inl e \<Rightarrow> Inl e
           | Inr (base, modifiers) \<Rightarrow>
               if length modifiers < 1 then Inr aggregated
               else
                 (case resolve_entry (aggregator_by_metric base) of
                    (dont, None) \<Rightarrow> Inr aggregated
                  | (dont, Some entry) \<Rightarrow>
                      if set (map fst modifiers) \<inter> set dont \<noteq> {} then Inr aggregated
                      else Inr (fst (fold_prefixes entry val modifiers (map fst modifiers)
                                       (aggregated, base))))))"

fun aggregate_loop :: "registry \<Rightarrow> pyval dict \<Rightarrow> pyval dict \<Rightarrow> error + pyval dict" where
  "aggregate_loop aggregator_by_metric [] aggregated = Inr aggregated"
| "aggregate_loop aggregator_by_metric (item # rest) aggregated =
     (case aggregate_entry aggregator_by_metric aggregated item of
        Inl e \<Rightarrow> Inl e
      | Inr aggregated' \<Rightarrow> aggregate_loop aggregator_by_metric rest aggregated')"

text \<open>\<^verbatim>\<open>d.update(other)\<close>: every item of \<^verbatim>\<open>other\<close>, in order, is stored in \<^verbatim>\<open>d\<close>.\<close>

definition dict_update :: "'v dict \<Rightarrow> 'v dict \<Rightarrow> 'v dict" where
  "dict_update d other = foldl (\<lambda>d kv. AList.update (fst kv) (snd kv) d) d other"

text \<open>
  \<^verbatim>\<open>aggregate_metrics\<close>. The default registry \<^verbatim>\<open>Metric.by_name\<close> is defined outside the
  sources and is a parameter.
\<close>

definition aggregate_metrics ::
  "pyval dict \<Rightarrow> registry option \<Rightarrow> registry \<Rightarrow> error + pyval dict" where
  "aggregate_metrics input aggregator_by_metric by_name =
     (case aggregate_loop
             (case aggregator_by_metric of None \<Rightarrow> by_name | Some r \<Rightarrow> r) input [] of
        Inl e \<Rightarrow> Inl e
      | Inr aggregated \<Rightarrow> Inr (dict_update input aggregated))"

section \<open>\<^verbatim>\<open>MetricDiff.render_md\<close>\<close>

text \<open>
  The \<^verbatim>\<open>IntEnum\<close> \<^verbatim>\<open>TableVerbosity\<close> and the integer of each member; the member
  \<^verbatim>\<open>ALL\<close> is written \<open>ALL'\<close>, the plain name being a binder of the logic.
\<close>

datatype TableVerbosity = NONE | CRITICAL | WORSE | CHANGED | ALL'

fun level :: "TableVerbosity \<Rightarrow> int" where
  "level NONE = 0"
| "level CRITICAL = 1"
| "level WORSE = 2"
| "level CHANGED = 3"
| "level ALL' = 4"

text \<open>
  \<^verbatim>\<open>_key_from_metrics\<close>: the base for the empty field, else the value of the modifier of
  that name, or the empty string. It parses the name and raises what the parser raises.
\<close>

definition key_from_metrics :: "string list \<Rightarrow> string \<Rightarrow> error + string list" where
  "key_from_metrics field_names metric =
     (case parse_metric_modifiers metric of
        Inl e \<Rightarrow> Inl e
      | Inr (base, modifiers) \<Rightarrow>
          Inr (map (\<lambda>field. if field = [] then base
                            else (case map_of modifiers field of None \<Rightarrow> [] | Some v \<Rightarrow> v))
                 field_names))"

text \<open>
  \<^verbatim>\<open>sorted(differences, key=...)\<close>: the key of every element is computed first, in order,
  and an exception of the key function ends the call; then the elements are sorted by
  their keys, ascending and stable. Keys are lists of strings, compared lexicographically.
\<close>

fun sort_keys :: "string list \<Rightarrow> MetricComparisonResult list \<Rightarrow> error + string list list" where
  "sort_keys field_names [] = Inr []"
| "sort_keys field_names (x # xs) =
     (case key_from_metrics field_names (metric_name x) of
        Inl e \<Rightarrow> Inl e
      | Inr k \<Rightarrow> (case sort_keys field_names xs of Inl e \<Rightarrow> Inl e | Inr ks \<Rightarrow> Inr (k # ks)))"

definition sorted_by_key ::
  "string list \<Rightarrow> MetricComparisonResult list \<Rightarrow> error + MetricComparisonResult list" where
  "sorted_by_key field_names differences =
     (case sort_keys field_names differences of
        Inl e \<Rightarrow> Inl e
      | Inr ks \<Rightarrow> Inr (map snd (sort_key fst (zip ks differences))))"

text \<open>
  Lines 174 to 179: \<^verbatim>\<open>if fields := sort_by\<close> sorts when \<^verbatim>\<open>sort_by\<close> is neither \<^verbatim>\<open>None\<close> nor
  empty.
\<close>

definition sort_differences ::
  "string list option \<Rightarrow> MetricComparisonResult list \<Rightarrow> error + MetricComparisonResult list" where
  "sort_differences sort_by differences =
     (case sort_by of
        None \<Rightarrow> Inr differences
      | Some field_names \<Rightarrow> if field_names = [] then Inr differences else sorted_by_key field_names differences)"

text \<open>
  Lines 183 to 196: every row is appended to the list of the first test it passes, so each
  of the four lists holds the rows of its kind in the order of \<^verbatim>\<open>differences\<close>.
\<close>

datatype bucket = Critical | Worse | Changed | Remaining

definition bucket_of :: "MetricComparisonResult \<Rightarrow> bucket" where
  "bucket_of row =
     (if MetricComparisonResult.critical row then Critical
      else if MetricComparisonResult.better row = Some False then Worse
      else if is_changed row then Changed
      else Remaining)"

text \<open>Lines 198 to 206.\<close>

definition listed_differences ::
  "TableVerbosity \<Rightarrow> MetricComparisonResult list \<Rightarrow> MetricComparisonResult list" where
  "listed_differences table_verbosity differences =
     (if level table_verbosity \<ge> level CRITICAL
      then filter (\<lambda>row. bucket_of row = Critical) differences else [])
     @ (if level table_verbosity \<ge> level WORSE
        then filter (\<lambda>row. bucket_of row = Worse) differences else [])
     @ (if level table_verbosity \<ge> level CHANGED
        then filter (\<lambda>row. bucket_of row = Changed) differences else [])
     @ (if level table_verbosity \<ge> level ALL'
        then filter (\<lambda>row. bucket_of row = Remaining) differences else [])"

text \<open>
  \<^verbatim>\<open>len\<close> of a string given in UTF-8 counts the bytes that start a code point, and the
  format \<^verbatim>\<open>{s:<n}\<close> fills with spaces on the right up to \<^verbatim>\<open>n\<close> code points.
\<close>

definition code_points :: "string \<Rightarrow> nat" where
  "code_points s = length (filter (\<lambda>c. \<not> (CHR 0x80 \<le> c \<and> c < CHR 0xC0)) s)"

definition ljust :: "nat \<Rightarrow> string \<Rightarrow> string" where
  "ljust n s = s @ replicate (n - code_points s) CHR '' ''"

text \<open>
  The three annotations, each a space and a glyph: U+2B55, U+2757, and U+203C followed by
  U+FE0F, in UTF-8.
\<close>

definition glyph_better :: string where
  "glyph_better = [CHR '' '', CHR 0xE2, CHR 0xAD, CHR 0x95]"

definition glyph_worse :: string where
  "glyph_worse = [CHR '' '', CHR 0xE2, CHR 0x9D, CHR 0x97]"

definition glyph_critical :: string where
  "glyph_critical = [CHR '' '', CHR 0xE2, CHR 0x80, CHR 0xBC, CHR 0xEF, CHR 0xB8, CHR 0x8F]"

text \<open>Lines 218 to 225.\<close>

definition emoji :: "MetricComparisonResult \<Rightarrow> string" where
  "emoji row =
     (let e = (case MetricComparisonResult.better row of
                 None \<Rightarrow> []
               | Some b \<Rightarrow> if b then glyph_better else glyph_worse)
      in if MetricComparisonResult.critical row \<and> is_changed row then glyph_critical else e)"

text \<open>Line 226: the line of the table for one row.\<close>

definition render_row :: "MetricComparisonResult \<Rightarrow> string" where
  "render_row row =
     (case format_values row of
        (before_text, after_text, delta) \<Rightarrow>
          ''| '' @ ljust 70 (metric_name row) @ '' | '' @ ljust 10 before_text @ '' | ''
          @ ljust 10 after_text @ '' | '' @ ljust 20 (delta @ emoji row) @ '' |'' @ [CHR 0x0A])"

text \<open>
  Lines 209 to 214: \<^verbatim>\<open>textwrap.dedent\<close> removes the indentation of the literal and
  empties its last line, which leaves a newline, the header line and the separator line.
\<close>

definition header :: string where
  "header =
     [CHR 0x0A] @ ''| '' @ ljust 70 ''Metric'' @ '' | '' @ ljust 10 ''Before'' @ '' | ''
     @ ljust 10 ''After'' @ '' | '' @ ljust 20 ''Delta'' @ '' |'' @ [CHR 0x0A]
     @ ''| '' @ ljust 70 ''-'' @ '' | '' @ ljust 10 ''-'' @ '' | ''
     @ ljust 10 ''-'' @ '' | '' @ ljust 20 ''-'' @ '' |'' @ [CHR 0x0A]"

text \<open>Lines 181 and 208 to 228: the table of the listed rows.\<close>

definition table_of :: "MetricComparisonResult list \<Rightarrow> string" where
  "table_of listed =
     (if length listed > 0 then header @ concat (map render_row listed) else [])"

definition render_md ::
  "MetricComparisonResult list \<Rightarrow> string list option \<Rightarrow> TableVerbosity \<Rightarrow> error + string" where
  "render_md differences sort_by table_verbosity =
     (if table_verbosity = NONE then Inr []
      else (case sort_differences sort_by differences of
              Inl e \<Rightarrow> Inl e
            | Inr sorted_differences \<Rightarrow>
                Inr (table_of (listed_differences table_verbosity sorted_differences))))"

section \<open>Vocabulary of the properties\<close>


text \<open>
  A segment is well formed when key and value are non-empty runs of word characters or
  hyphens, the grammar \<^verbatim>\<open>[\w\-]+:[\w\-]+\<close>.
\<close>

definition well_formed_segment :: "string \<times> string \<Rightarrow> bool" where
  "well_formed_segment kv \<longleftrightarrow>
     fst kv \<noteq> [] \<and> snd kv \<noteq> []
     \<and> list_all word_or_hyphen (fst kv) \<and> list_all word_or_hyphen (snd kv)"


text \<open>
  A rule for the examples: the base name \<^verbatim>\<open>m\<close> is aggregated with Python's \<^verbatim>\<open>min\<close>,
  from an initial accumulator above every value of the examples. The reducer is given on
  the two-element integer lists that the loop passes to it.
\<close>

fun py_min :: "pyval list \<Rightarrow> pyval" where
  "py_min [PyInt a, PyInt b] = PyInt (min a b)"
| "py_min vs = PyNone"

definition min_registry :: registry where
  "min_registry =
     (\<lambda>name. if name = ''m'' then Some (Aggregator (PyInt 100, py_min)) else None)"



text \<open>
  The rows of the table that \<^verbatim>\<open>render_md\<close> returns: the listed rows of the sorted
  differences, and none when sorting raises.
\<close>

definition rows_rendered ::
  "MetricComparisonResult list \<Rightarrow> string list option \<Rightarrow> TableVerbosity
     \<Rightarrow> MetricComparisonResult list" where
  "rows_rendered differences sort_by table_verbosity =
     (case sort_differences sort_by differences of
        Inl e \<Rightarrow> []
      | Inr sorted_differences \<Rightarrow> listed_differences table_verbosity sorted_differences)"

text \<open>Some part of the name contains no colon, so that the parser's scan stops.\<close>

definition parses :: "string \<Rightarrow> bool" where
  "parses name \<longleftrightarrow> list_ex (\<lambda>p. CHR '':'' \<notin> set p) (split_dunder name)"

text \<open>A changed result whose \<^verbatim>\<open>better\<close> flag is \<^verbatim>\<open>None\<close>.\<close>

definition undetermined :: "MetricComparisonResult \<Rightarrow> bool" where
  "undetermined row \<longleftrightarrow> is_changed row \<and> MetricComparisonResult.better row = None"

section \<open>Properties of \<^verbatim>\<open>MetricDiff.stats\<close>\<close>

text \<open>
  The loop invariant: after any number of rows, each counter is its starting value plus
  the number of rows of its kind.
\<close>

lemma stats_row_counts:
  "MetricStatistics.better (stats_row st row) =
     MetricStatistics.better st
       + (if is_changed row \<and> MetricComparisonResult.better row = Some True then 1 else 0)"
  "worse (stats_row st row) =
     worse st + (if is_changed row \<and> MetricComparisonResult.better row = Some False then 1 else 0)"
  "unchanged (stats_row st row) = unchanged st + (if is_changed row then 0 else 1)"
  "MetricStatistics.critical (stats_row st row) =
     MetricStatistics.critical st + (if MetricComparisonResult.critical row then 1 else 0)"
  by (auto simp: stats_row_def Let_def split: option.splits)

lemma foldl_stats_row_counts:
  "MetricStatistics.better (foldl stats_row st rows) =
     MetricStatistics.better st
       + length (filter (\<lambda>r. is_changed r \<and> MetricComparisonResult.better r = Some True) rows)"
  "worse (foldl stats_row st rows) =
     worse st
       + length (filter (\<lambda>r. is_changed r \<and> MetricComparisonResult.better r = Some False) rows)"
  "unchanged (foldl stats_row st rows) =
     unchanged st + length (filter (\<lambda>r. \<not> is_changed r) rows)"
  "MetricStatistics.critical (foldl stats_row st rows) =
     MetricStatistics.critical st + length (filter MetricComparisonResult.critical rows)"
  by (induction rows arbitrary: st) (simp_all add: stats_row_counts)

lemma four_way_partition:
  "length (filter (\<lambda>r. is_changed r \<and> MetricComparisonResult.better r = Some True) rows)
   + length (filter (\<lambda>r. is_changed r \<and> MetricComparisonResult.better r = Some False) rows)
   + length (filter (\<lambda>r. \<not> is_changed r) rows)
   + length (filter undetermined rows) = length rows"
proof (induction rows)
  case Nil
  show ?case by simp
next
  case (Cons r rows)
  show ?case
  proof (cases "MetricComparisonResult.better r")
    case None
    with Cons show ?thesis by (simp add: undetermined_def)
  next
    case (Some b)
    with Cons show ?thesis by (cases b) (simp_all add: undetermined_def)
  qed
qed

text \<open>
  C10. With no hypothesis on the \<^verbatim>\<open>better\<close> flags, the three change counters of
  \<^verbatim>\<open>stats\<close> add up to at most the number of results, and what is missing is exactly the
  number of changed results whose \<^verbatim>\<open>better\<close> flag is \<^verbatim>\<open>None\<close>. Such a result moves none
  of the three change counters: a changed result with the flag \<^verbatim>\<open>None\<close> leaves them as
  they were and can only move the critical counter.
\<close>

theorem stats_shortfall:
  "MetricStatistics.better (stats rows) + worse (stats rows) + unchanged (stats rows)
     + length (filter undetermined rows) = length rows
   \<and> MetricStatistics.better (stats rows) + worse (stats rows) + unchanged (stats rows)
       \<le> length rows
   \<and> MetricStatistics.better (stats_row st (row\<lparr>is_changed := True, MetricComparisonResult.better := None\<rparr>))
       = MetricStatistics.better st
   \<and> worse (stats_row st (row\<lparr>is_changed := True, MetricComparisonResult.better := None\<rparr>)) = worse st
   \<and> unchanged (stats_row st (row\<lparr>is_changed := True, MetricComparisonResult.better := None\<rparr>))
       = unchanged st"
proof -
  have total:
    "MetricStatistics.better (stats rows) + worse (stats rows) + unchanged (stats rows)
       + length (filter undetermined rows) = length rows"
    using four_way_partition [of rows] by (simp add: stats_def foldl_stats_row_counts)
  then have "MetricStatistics.better (stats rows) + worse (stats rows) + unchanged (stats rows)
       \<le> length rows"
    by linarith
  with total show ?thesis by (simp add: stats_row_counts)
qed

text \<open>
  C8. When every result is unchanged or has a determinate \<^verbatim>\<open>better\<close> flag, the counters
  \<^verbatim>\<open>better\<close>, \<^verbatim>\<open>worse\<close> and \<^verbatim>\<open>unchanged\<close> of \<^verbatim>\<open>stats\<close> add up to the number of results;
  and for any results at all the \<^verbatim>\<open>critical\<close> counter is at most the number of results.
\<close>

theorem stats_partition:
  "((\<forall>r \<in> set rows. \<not> is_changed r \<or> MetricComparisonResult.better r \<noteq> None) \<longrightarrow>
      MetricStatistics.better (stats rows) + worse (stats rows) + unchanged (stats rows)
        = length rows)
   \<and> MetricStatistics.critical (stats rows) \<le> length rows"
proof -
  have "filter undetermined rows = []"
    if "\<forall>r \<in> set rows. \<not> is_changed r \<or> MetricComparisonResult.better r \<noteq> None"
    using that by (auto simp: filter_empty_conv undetermined_def)
  moreover have "MetricStatistics.critical (stats rows) \<le> length rows"
    by (simp add: stats_def foldl_stats_row_counts)
  ultimately show ?thesis
    using four_way_partition [of rows] by (auto simp: stats_def foldl_stats_row_counts)
qed

theorem stats_partition_witness:
  "list_all (\<lambda>r. \<not> is_changed r \<or> MetricComparisonResult.better r \<noteq> None)
      [result ''m'' (Some True) True True (''1'', ''2'', ''1''),
       result ''n'' None False False (''1'', ''1'', ''0'')]
   \<and> MetricStatistics.better
       (stats [result ''m'' (Some True) True True (''1'', ''2'', ''1''),
               result ''n'' None False False (''1'', ''1'', ''0'')]) = 1
   \<and> worse
       (stats [result ''m'' (Some True) True True (''1'', ''2'', ''1''),
               result ''n'' None False False (''1'', ''1'', ''0'')]) = 0
   \<and> unchanged
       (stats [result ''m'' (Some True) True True (''1'', ''2'', ''1''),
               result ''n'' None False False (''1'', ''1'', ''0'')]) = 1
   \<and> MetricStatistics.critical
       (stats [result ''m'' (Some True) True True (''1'', ''2'', ''1''),
               result ''n'' None False False (''1'', ''1'', ''0'')]) \<le> 2"
  using stats_partition [of "[result ''m'' (Some True) True True (''1'', ''2'', ''1''),
               result ''n'' None False False (''1'', ''1'', ''0'')]"]
  by (auto simp: stats_def stats_row_def result_def)

section \<open>Properties of the parser\<close>

subsection \<open>Splitting and joining\<close>





lemma parse_loop_Nil: "parse_loop [] m = Inl IndexError"
  by (simp add: parse_loop.simps)

lemma parse_loop_snoc:
  "parse_loop (xs @ [p]) m =
     (if CHR '':'' \<in> set p
      then parse_loop xs (AList.update (fst (split_colon p)) (snd (split_colon p)) m)
      else Inr (xs @ [p], m))"
  by (subst parse_loop.simps) (simp add: case_prod_beta)

lemma parse_loop_segments:
  "\<forall>s \<in> set segs. CHR '':'' \<in> set s \<Longrightarrow>
   parse_loop (xs @ segs) m = parse_loop xs (foldr store_segment segs m)"
proof (induction segs arbitrary: m rule: rev_induct)
  case Nil
  show ?case by simp
next
  case (snoc s segs)
  have "parse_loop ((xs @ segs) @ [s]) m = parse_loop (xs @ segs) (store_segment s m)"
    using snoc.prems by (simp add: parse_loop_snoc store_segment_def del: append_assoc)
  with snoc show ?case by simp
qed

lemma parse_loop_stops:
  assumes "CHR '':'' \<notin> set q" "\<forall>s \<in> set segs. CHR '':'' \<in> set s"
  shows "parse_loop (pre @ [q] @ segs) m = Inr (pre @ [q], foldr store_segment segs m)"
  using parse_loop_segments [OF assms(2), of "pre @ [q]" m] assms(1)
  by (simp add: parse_loop_snoc)

lemma parse_loop_raises:
  assumes "\<forall>s \<in> set segs. CHR '':'' \<in> set s"
  shows "parse_loop segs m = Inl IndexError"
  using parse_loop_segments [OF assms, of "[]" m] by (simp add: parse_loop_Nil)

lemma distinct_store_segment:
  "distinct (map fst d) \<Longrightarrow> distinct (map fst (store_segment s d))"
  by (simp add: store_segment_def distinct_update)

lemma distinct_foldr_store:
  "distinct (map fst d) \<Longrightarrow> distinct (map fst (foldr store_segment segs d))"
  by (induction segs) (simp_all add: distinct_store_segment)

lemma update_fresh: "k \<notin> fst ` set d \<Longrightarrow> AList.update k v d = d @ [(k, v)]"
  by (induction d) auto

lemma foldl_update_fresh:
  "distinct ks \<Longrightarrow> set ks \<inter> fst ` set acc = {} \<Longrightarrow>
   foldl (\<lambda>d k. AList.update k (f k) d) acc ks = acc @ map (\<lambda>k. (k, f k)) ks"
proof (induction ks arbitrary: acc)
  case Nil
  show ?case by simp
next
  case (Cons k ks)
  have "AList.update k (f k) acc = acc @ [(k, f k)]"
    using Cons.prems by (intro update_fresh) auto
  moreover have "set ks \<inter> fst ` set (acc @ [(k, f k)]) = {}"
    using Cons.prems by auto
  ultimately show ?case
    using Cons.IH [of "acc @ [(k, f k)]"] Cons.prems by simp
qed

lemma reversed_dict_rev:
  assumes "distinct (map fst d)"
  shows "reversed_dict d = rev d"
proof -
  have "reversed_dict d = map (\<lambda>k. (k, the (map_of d k))) (rev (map fst d))"
    unfolding reversed_dict_def using assms
    by (subst foldl_update_fresh) simp_all
  also have "\<dots> = rev (map (\<lambda>kv. (fst kv, the (map_of d (fst kv)))) d)"
    by (simp add: rev_map comp_def)
  also have "map (\<lambda>kv. (fst kv, the (map_of d (fst kv)))) d = d"
    using assms by (intro map_idI) (auto simp: map_of_eq_Some_iff [OF assms])
  finally show ?thesis .
qed

subsection \<open>The loop of the parser\<close>

lemma map_of_rev_distinct:
  assumes "distinct (map fst d)"
  shows "map_of (rev d) = map_of d"
proof -
  have "distinct (map fst (rev d))"
    using assms by (simp add: rev_map [symmetric])
  then show ?thesis
    using assms by (simp add: map_of_inject_set)
qed

lemma map_of_foldr_store:
  "map_of (foldr store_segment segs []) = map_of (map split_colon segs)"
  by (induction segs) (simp_all add: store_segment_def update_conv')

lemma parse_metric_modifiers_stops:
  assumes "split_dunder name = pre @ [q] @ segs"
    and "CHR '':'' \<notin> set q" and "\<forall>s \<in> set segs. CHR '':'' \<in> set s"
  shows "parse_metric_modifiers name =
           Inr (join_dunder (pre @ [q]), rev (foldr store_segment segs []))"
proof -
  have "distinct (map fst (foldr store_segment segs []))"
    by (rule distinct_foldr_store) simp
  then show ?thesis
    using parse_loop_stops [OF assms(2,3), of pre "[]"] assms(1)
    by (simp add: parse_metric_modifiers_def reversed_dict_rev)
qed

lemma parse_metric_modifiers_raises:
  assumes "\<forall>s \<in> set (split_dunder name). CHR '':'' \<in> set s"
  shows "parse_metric_modifiers name = Inl IndexError"
  using parse_loop_raises [OF assms, of "[]"] by (simp add: parse_metric_modifiers_def)

lemma parse_metric_modifiers_raises_iff:
  "parse_metric_modifiers name = Inl IndexError
     \<longleftrightarrow> (\<forall>s \<in> set (split_dunder name). CHR '':'' \<in> set s)"
proof
  assume raises: "parse_metric_modifiers name = Inl IndexError"
  show "\<forall>s \<in> set (split_dunder name). CHR '':'' \<in> set s"
  proof (rule ccontr)
    assume "\<not> (\<forall>s \<in> set (split_dunder name). CHR '':'' \<in> set s)"
    then have "\<exists>s \<in> set (split_dunder name). CHR '':'' \<notin> set s" by blast
    then obtain pre q segs where "split_dunder name = pre @ q # segs"
      and "CHR '':'' \<notin> set q" and "\<forall>s \<in> set segs. \<not> CHR '':'' \<notin> set s"
      using split_list_last_prop [where P = "\<lambda>s. CHR '':'' \<notin> set s"] by blast
    then have "parse_metric_modifiers name =
           Inr (join_dunder (pre @ [q]), rev (foldr store_segment segs []))"
      by (intro parse_metric_modifiers_stops) simp_all
    with raises show False by simp
  qed
qed (rule parse_metric_modifiers_raises)

text \<open>
  C1. The claim is that \<^verbatim>\<open>parse_metric_modifiers\<close> returns a pair for every string, also
  when every part contains a colon. On the name \<^verbatim>\<open>a:b\<close> the loop pops the only part and
  then reads \<^verbatim>\<open>mn_mut[-1]\<close> of the empty list: the call raises \<^verbatim>\<open>IndexError\<close>. By
  \<open>parse_metric_modifiers_raises_iff\<close> this happens exactly for the names all of whose
  parts contain a colon.
\<close>

theorem parse_only_part_with_colon_raises:
  "parse_metric_modifiers ''a:b'' = Inl IndexError"
  by (simp add: parse_metric_modifiers_def parse_loop.simps split_colon_def)

text \<open>
  C4, as stated, fails: the part \<^verbatim>\<open>k: v\<close> contains a colon and a space, no reading of
  the pattern accepts it, and the parser strips it as a modifier all the same.
\<close>

theorem parse_strips_part_outside_grammar:
  "\<not> modifier_rx_search ''k: v'' \<and> \<not> modifier_rx_match ''k: v''
   \<and> \<not> modifier_rx_fullmatch ''k: v''
   \<and> parse_metric_modifiers ''m__k: v'' = Inr (''m'', [(''k'', '' v'')])"
  by (simp add: modifier_rx_search_def modifier_rx_match_def modifier_rx_fullmatch_def
      word_or_hyphen_def upt_rec parse_metric_modifiers_def parse_loop.simps split_colon_def
      reversed_dict_def)

text \<open>
  C4, amended. The guard of the loop is \<^verbatim>\<open>":" in mn_mut[-1]\<close>: a trailing part is stripped
  as a modifier exactly when it contains a colon. When the parts of the name are
  \<open>pre @ [q] @ segs\<close>, with a colon in every part of \<open>segs\<close> and none in \<open>q\<close>, the scan
  stops at \<open>q\<close>: the base is \<open>pre @ [q]\<close> rejoined, whatever \<open>pre\<close> holds, and the
  modifiers are the parts of \<open>segs\<close> cut at their first colon (the leftmost part winning
  for a repeated key).
\<close>

theorem parse_strips_colon_parts:
  assumes "split_dunder name = pre @ [q] @ segs"
    and "CHR '':'' \<notin> set q" and "\<forall>s \<in> set segs. CHR '':'' \<in> set s"
  shows "\<exists>modifiers. parse_metric_modifiers name = Inr (join_dunder (pre @ [q]), modifiers)
           \<and> map_of modifiers = map_of (map split_colon segs)
           \<and> distinct (map fst modifiers)"
proof -
  let ?d = "foldr store_segment segs []"
  have d: "distinct (map fst ?d)"
    by (rule distinct_foldr_store) simp
  have "map_of (rev ?d) = map_of (map split_colon segs)"
    using d by (simp add: map_of_rev_distinct map_of_foldr_store)
  moreover have "distinct (map fst (rev ?d))"
    using d by (simp add: rev_map [symmetric])
  ultimately show ?thesis
    using parse_metric_modifiers_stops [OF assms] by blast
qed

theorem parse_strips_colon_parts_witness:
  "\<exists>modifiers. parse_metric_modifiers ''a:b__m__k: v__x:y'' = Inr (''a:b__m'', modifiers)
           \<and> map_of modifiers = map_of [(''k'', '' v''), (''x'', ''y'')]
           \<and> distinct (map fst modifiers)"
  using parse_strips_colon_parts [of "''a:b__m__k: v__x:y''" "[''a:b'']" "''m''" "[''k: v'', ''x:y'']"]
  by (simp add: split_colon_def)

subsection \<open>Names built from a base and segments\<close>






lemma well_formed_key_no_colon:
  "well_formed_segment kv \<Longrightarrow> CHR '':'' \<notin> set (fst kv)"
  by (auto simp: well_formed_segment_def list_all_iff word_or_hyphen_def)




section \<open>Properties of the aggregator\<close>

subsection \<open>Falsy accumulators\<close>

lemmas agg_eval = aggregate_metrics_def aggregate_entry_def parse_metric_modifiers_def
  parse_loop.simps split_colon_def reversed_dict_def min_registry_def get_or_def dict_update_def

lemma py_min_commutative: "py_min [a, b] = py_min [b, a]"
  by (cases a; cases b) (simp_all add: min.commute)

lemma py_min_associative: "py_min [py_min [a, b], c] = py_min [a, py_min [b, c]]"
  by (cases a; cases b; cases c) (simp_all add: min.assoc)

text \<open>
  C2. The claim is that every fold after the first applies the reducer to the stored
  accumulator, whatever it is, zero included. The code reads the accumulator with
  \<^verbatim>\<open>aggregated.get(metric_name_so_far) or start\<close>: a stored accumulator that is falsy is
  replaced by the initial accumulator. With the leaves 0 and 5 under \<^verbatim>\<open>min\<close>, the
  accumulator stored after the first leaf is 0; the second fold computes
  \<^verbatim>\<open>min([100, 5])\<close>, not \<^verbatim>\<open>min([0, 5])\<close>, and the aggregate is 5.
\<close>

theorem falsy_accumulator_reseeded:
  "aggregate_loop min_registry [(''m__a:1'', PyInt 0)] [] = Inr [(''m'', PyInt 0)]
   \<and> aggregate_entry min_registry [(''m'', PyInt 0)] (''m__a:2'', PyInt 5)
       = Inr [(''m'', py_min [PyInt 100, PyInt 5])]
   \<and> py_min [PyInt 100, PyInt 5] \<noteq> py_min [PyInt 0, PyInt 5]
   \<and> aggregate_metrics [(''m__a:1'', PyInt 0), (''m__a:2'', PyInt 5)] (Some min_registry) Map.empty
       = Inr [(''m__a:1'', PyInt 0), (''m__a:2'', PyInt 5), (''m'', PyInt 5)]"
  by (simp add: agg_eval)

text \<open>
  C3. The claim is that, for an associative and commutative reducer, the aggregate of a
  prefix does not depend on the order of the input's entries. \<^verbatim>\<open>min\<close> is associative
  and commutative, and the two orders of the same two entries give the aggregates 5
  and 0 for \<^verbatim>\<open>m\<close>: the falsy accumulator 0 is reseeded in the first order only.
\<close>

theorem aggregate_depends_on_order:
  "(\<forall>a b. py_min [a, b] = py_min [b, a])
   \<and> (\<forall>a b c. py_min [py_min [a, b], c] = py_min [a, py_min [b, c]])
   \<and> aggregate_metrics [(''m__a:1'', PyInt 0), (''m__a:2'', PyInt 5)] (Some min_registry) Map.empty
       = Inr [(''m__a:1'', PyInt 0), (''m__a:2'', PyInt 5), (''m'', PyInt 5)]
   \<and> aggregate_metrics [(''m__a:2'', PyInt 5), (''m__a:1'', PyInt 0)] (Some min_registry) Map.empty
       = Inr [(''m__a:2'', PyInt 5), (''m__a:1'', PyInt 0), (''m'', PyInt 0)]"
  using py_min_commutative py_min_associative by (simp add: agg_eval)

subsection \<open>What one entry writes, and the merge\<close>





















section \<open>Properties of the renderer\<close>

lemma parses_returns:
  assumes "parses name"
  shows "\<exists>base modifiers. parse_metric_modifiers name = Inr (base, modifiers)"
proof (cases "parse_metric_modifiers name")
  case (Inl e)
  then have "parse_metric_modifiers name = Inl IndexError"
    by (cases e) simp
  with assms show ?thesis
    by (auto simp: parse_metric_modifiers_raises_iff parses_def list_ex_iff)
next
  case (Inr r)
  then show ?thesis by (cases r) simp
qed

lemma sort_keys_returns:
  "\<forall>r \<in> set differences. parses (metric_name r) \<Longrightarrow>
   \<exists>ks. sort_keys field_names differences = Inr ks \<and> length ks = length differences"
proof (induction differences)
  case Nil
  show ?case by simp
next
  case (Cons r differences)
  obtain base modifiers where "parse_metric_modifiers (metric_name r) = Inr (base, modifiers)"
    using Cons.prems parses_returns by fastforce
  moreover obtain ks where "sort_keys field_names differences = Inr ks"
    and "length ks = length differences"
    using Cons by auto
  ultimately show ?case
    by (simp add: key_from_metrics_def)
qed

lemma sorted_by_key_returns:
  assumes "\<forall>r \<in> set differences. parses (metric_name r)"
  shows "\<exists>ds. sorted_by_key field_names differences = Inr ds
           \<and> set ds = set differences \<and> length ds = length differences"
proof -
  obtain ks where ks: "sort_keys field_names differences = Inr ks"
    and len: "length ks = length differences"
    using sort_keys_returns [OF assms] by blast
  have "set (map snd (sort_key fst (zip ks differences))) = snd ` set (zip ks differences)"
    by simp
  also have "\<dots> = set (map snd (zip ks differences))"
    by simp
  also have "\<dots> = set differences"
    using len by simp
  finally show ?thesis
    using ks len by (simp add: sorted_by_key_def)
qed

lemma sort_differences_returns:
  assumes "sort_by = None \<or> sort_by = Some [] \<or> (\<forall>r \<in> set differences. parses (metric_name r))"
  shows "\<exists>ds. sort_differences sort_by differences = Inr ds
           \<and> set ds = set differences \<and> length ds = length differences"
proof (cases sort_by)
  case None
  then show ?thesis by (simp add: sort_differences_def)
next
  case (Some field_names)
  show ?thesis
  proof (cases "field_names = []")
    case True
    with Some show ?thesis by (simp add: sort_differences_def)
  next
    case False
    with Some assms have "\<forall>r \<in> set differences. parses (metric_name r)"
      by simp
    from sorted_by_key_returns [OF this, of field_names] Some False show ?thesis
      by (simp add: sort_differences_def)
  qed
qed

lemma listed_differences_mono:
  "set (listed_differences CRITICAL ds) \<subseteq> set (listed_differences WORSE ds)"
  "set (listed_differences WORSE ds) \<subseteq> set (listed_differences CHANGED ds)"
  by (auto simp: listed_differences_def)

lemma table_of_Nil: "table_of [] = []"
  by (simp add: table_of_def)

lemma listed_differences_NONE: "listed_differences NONE ds = []"
  by (simp add: listed_differences_def)

text \<open>
  What the renderer does for any results and sort order: at verbosity \<^verbatim>\<open>NONE\<close> the
  result is the empty string; the rows rendered at \<^verbatim>\<open>CRITICAL\<close> are among those rendered
  at \<^verbatim>\<open>WORSE\<close>, which are among those rendered at \<^verbatim>\<open>CHANGED\<close>; and once the
  differences are sorted, the result at any verbosity is the table of the listed rows,
  which is the empty string, without header, when no row is listed. Sorting returns, with
  the same rows, when no sort order is given or every metric name has a part without
  colon.
\<close>

theorem render_md_verbosity:
  "render_md differences sort_by NONE = Inr []
   \<and> set (rows_rendered differences sort_by CRITICAL) \<subseteq> set (rows_rendered differences sort_by WORSE)
   \<and> set (rows_rendered differences sort_by WORSE) \<subseteq> set (rows_rendered differences sort_by CHANGED)
   \<and> (\<forall>ds v. sort_differences sort_by differences = Inr ds \<longrightarrow>
         rows_rendered differences sort_by v = listed_differences v ds
         \<and> render_md differences sort_by v = Inr (table_of (listed_differences v ds))
         \<and> (listed_differences v ds = [] \<longrightarrow> render_md differences sort_by v = Inr []))
   \<and> (sort_by = None \<or> sort_by = Some [] \<or> (\<forall>r \<in> set differences. parses (metric_name r)) \<longrightarrow>
         (\<exists>ds. sort_differences sort_by differences = Inr ds
            \<and> set ds = set differences \<and> length ds = length differences))"
proof (intro conjI allI impI)
  show "render_md differences sort_by NONE = Inr []"
    by (simp add: render_md_def)
  show "set (rows_rendered differences sort_by CRITICAL)
      \<subseteq> set (rows_rendered differences sort_by WORSE)"
    using listed_differences_mono(1)
    by (cases "sort_differences sort_by differences") (simp_all add: rows_rendered_def)
  show "set (rows_rendered differences sort_by WORSE)
      \<subseteq> set (rows_rendered differences sort_by CHANGED)"
    using listed_differences_mono(2)
    by (cases "sort_differences sort_by differences") (simp_all add: rows_rendered_def)
next
  fix ds v
  assume sorted: "sort_differences sort_by differences = Inr ds"
  then show "rows_rendered differences sort_by v = listed_differences v ds"
    by (simp add: rows_rendered_def)
  from sorted show md: "render_md differences sort_by v = Inr (table_of (listed_differences v ds))"
    by (simp add: render_md_def listed_differences_NONE table_of_Nil)
  assume "listed_differences v ds = []"
  with md show "render_md differences sort_by v = Inr []"
    by (simp add: table_of_Nil)
next
  assume "sort_by = None \<or> sort_by = Some [] \<or> (\<forall>r \<in> set differences. parses (metric_name r))"
  then show "\<exists>ds. sort_differences sort_by differences = Inr ds
      \<and> set ds = set differences \<and> length ds = length differences"
    by (rule sort_differences_returns)
qed

lemmas render_eval = render_md_def sort_differences_def sorted_by_key_def key_from_metrics_def
  parse_metric_modifiers_def parse_loop.simps split_colon_def reversed_dict_def
  listed_differences_def bucket_of_def table_of_def result_def rows_rendered_def parses_def

theorem render_md_verbosity_example:
  "render_md [result ''m__a:2'' (Some True) False False (''1'', ''1'', ''0''),
              result ''m__a:1'' None True True (''1'', ''2'', ''1'')] (Some [''a'']) NONE = Inr []
   \<and> sort_differences (Some [''a''])
        [result ''m__a:2'' (Some True) False False (''1'', ''1'', ''0''),
         result ''m__a:1'' None True True (''1'', ''2'', ''1'')]
       = Inr [result ''m__a:1'' None True True (''1'', ''2'', ''1''),
              result ''m__a:2'' (Some True) False False (''1'', ''1'', ''0'')]
   \<and> rows_rendered [result ''m__a:2'' (Some True) False False (''1'', ''1'', ''0''),
              result ''m__a:1'' None True True (''1'', ''2'', ''1'')] (Some [''a'']) CHANGED
       = [result ''m__a:1'' None True True (''1'', ''2'', ''1'')]
   \<and> render_md [result ''m__a:2'' (Some True) False False (''1'', ''1'', ''0''),
              result ''m__a:1'' None True True (''1'', ''2'', ''1'')] (Some [''a'']) CHANGED
       = Inr (header @ render_row (result ''m__a:1'' None True True (''1'', ''2'', ''1'')))
   \<and> render_md [result ''m__a:2'' (Some True) False False (''1'', ''1'', ''0'')] None CHANGED
       = Inr []"
  using render_md_verbosity
      [of "[result ''m__a:2'' (Some True) False False (''1'', ''1'', ''0''),
            result ''m__a:1'' None True True (''1'', ''2'', ''1'')]" "Some [''a'']"]
    render_md_verbosity
      [of "[result ''m__a:2'' (Some True) False False (''1'', ''1'', ''0'')]" None]
  by (simp add: render_eval)


text \<open>
  C7. The claim is that, for every result set and sort order, the output is the empty
  string when no result falls in the buckets selected by the verbosity. With a sort
  order, \<^verbatim>\<open>sorted\<close> computes the key of every row before any bucket is formed, and the key
  parses the metric name. For the single row named \<^verbatim>\<open>a:b\<close>, unchanged and not critical,
  no row is listed at \<^verbatim>\<open>CRITICAL\<close>, and the call with the sort order \<^verbatim>\<open>["a"]\<close> raises the
  \<^verbatim>\<open>IndexError\<close> of the parser instead of returning the empty string; without a sort
  order the same call returns it.
\<close>

theorem render_md_raises_on_sort_key:
  "bucket_of (result ''a:b'' None False False (''1'', ''1'', ''0'')) = Remaining
   \<and> listed_differences CRITICAL [result ''a:b'' None False False (''1'', ''1'', ''0'')] = []
   \<and> key_from_metrics [''a''] ''a:b'' = Inl IndexError
   \<and> render_md [result ''a:b'' None False False (''1'', ''1'', ''0'')] (Some [''a'']) CRITICAL
       = Inl IndexError
   \<and> render_md [result ''a:b'' None False False (''1'', ''1'', ''0'')] None CRITICAL = Inr []"
  by (simp add: render_eval)




end
